theory Spec2Isabelle
  imports Main
begin

section \<open>The HTML5 XBlock: data model\<close>

text \<open>
  The block of \<^verbatim>\<open>html_xblock.py\<close> declares four persisted fields. The two
  properties that read the content and the handler that writes it are modelled as
  functions from the block (Python's \<^verbatim>\<open>self\<close>) to the block after the call, paired
  with what the call returns; an exception is a value of \<open>py_error\<close> on the left of a
  sum. What the host framework and the packaging library supply (the current language,
  whether a packaged resource exists, the URL of a resource) is a parameter of the
  function that asks for it.
\<close>

datatype py_error = KeyError string | IndexError

record HTML5XBlock =
  display_name :: string
  data :: string
  allow_javascript :: bool
  editor :: string

text \<open>The declared defaults of the four fields.\<close>

definition default_block :: HTML5XBlock where
  "default_block =
     \<lparr>display_name = ''Text'', data = [], allow_javascript = False, editor = ''visual''\<rparr>"

text \<open>
  A JSON object whose values are strings, as the handler's payload \<^verbatim>\<open>{content: string}\<close>
  and its answer are.
\<close>

type_synonym json_dict = "string \<rightharpoonup> string"

section \<open>Reading the content\<close>

text \<open>
  \<^verbatim>\<open>SanitizedText\<close> is imported from the module \<^verbatim>\<open>bleaching\<close>; its code is not
  modelled. It is a parameter here: the function \<open>SanitizedText_value\<close> gives, for
  the text handed to the constructor, either the exception the construction raises or
  the \<^verbatim>\<open>value\<close> attribute of the object built. The constructor receives the
  body, a string, and not the block, so it cannot assign to the block's fields.

  \<^verbatim>\<open>
  @property
  def sanitized_html(self):
      html = SanitizedText(self.data)
      return html.value
  \<close>
\<close>

definition sanitized_html ::
    "(string \<Rightarrow> 'e + string) \<Rightarrow> HTML5XBlock \<Rightarrow> HTML5XBlock \<times> ('e + string)" where
  "sanitized_html SanitizedText_value self = (self, SanitizedText_value (data self))"

text \<open>
  \<^verbatim>\<open>
  @property
  def html(self):
      if self.allow_javascript:
          return self.data
      return self.sanitized_html
  \<close>
\<close>

definition html ::
    "(string \<Rightarrow> 'e + string) \<Rightarrow> HTML5XBlock \<Rightarrow> HTML5XBlock \<times> ('e + string)" where
  "html SanitizedText_value self =
     (if allow_javascript self then (self, Inr (data self))
      else sanitized_html SanitizedText_value self)"

section \<open>The String field\<close>

text \<open>
  \<^verbatim>\<open>data = String(help=..., default=u'', scope=Scope.content)\<close>

  The body is a \<^verbatim>\<open>String\<close> field of the block framework (\<^verbatim>\<open>xblock.fields\<close>), which is
  not part of this repository. Assigning to such a field and reading it both pass the
  value through the field's \<^verbatim>\<open>_sanitize\<close>, which deletes every character matching the
  field's \<^verbatim>\<open>BAD_REGEX\<close>, the characters XML forbids, and keeps the others in their
  order. The expression matches the control characters U+0000 to U+0008, U+000B,
  U+000C and U+000E to U+001F, the surrogates U+D800 to U+DFFF, and U+FFFE and U+FFFF.
  A character of the model is a code point below 256, so the model has the control
  characters of the expression and none of the others. TAB, LF and CR (9, 10 and 13)
  are kept.

  The field \<open>data\<close> of the record is the value that reading \<^verbatim>\<open>self.data\<close> yields.
\<close>

definition BAD_REGEX :: "char \<Rightarrow> bool" where
  "BAD_REGEX c =
     (let n = of_char c :: nat in n \<le> 8 \<or> n = 11 \<or> n = 12 \<or> (14 \<le> n \<and> n \<le> 31))"

definition String_sanitize :: "string \<Rightarrow> string" where
  "String_sanitize v = filter (\<lambda>c. \<not> BAD_REGEX c) v"

section \<open>Updating the content\<close>

text \<open>
  \<^verbatim>\<open>
  @XBlock.json_handler
  def update_content(self, data, suffix=''):
      self.data = data['content']
      return {'content': self.data}
  \<close>
  The subscript raises \<^verbatim>\<open>KeyError\<close> on a payload without the key, before the
  assignment is reached. The assignment goes through the \<^verbatim>\<open>String\<close> field, which
  keeps the sanitized value; the read in the last line sanitizes once more, which
  changes nothing, since sanitizing is idempotent (\<open>String_sanitize_idem\<close> below). The
  payload is called \<open>request\<close> here, since \<open>data\<close> is the field.
\<close>

definition update_content ::
    "HTML5XBlock \<Rightarrow> json_dict \<Rightarrow> string \<Rightarrow> HTML5XBlock \<times> (py_error + json_dict)" where
  "update_content self request suffix =
     (case request ''content'' of
        None \<Rightarrow> (self, Inl (KeyError ''content''))
      | Some content \<Rightarrow>
          (let self' = self\<lparr>data := String_sanitize content\<rparr>
           in (self', Inr [''content'' \<mapsto> String_sanitize (data self')])))"

section \<open>The editor's plugins\<close>

text \<open>
  \<^verbatim>\<open>
  def get_editor_plugins(self):
      plugin_path = 'public/plugins/{plugin}/plugin.min.js'
      plugins = ['codesample', 'image', 'link', 'lists', 'textcolor', 'codemirror']
      return {
          plugin: self.runtime.local_resource_url(self, plugin_path.format(plugin=plugin))
          for plugin in plugins
      }
  \<close>
  The comprehension stores one entry per plugin, in the order of the list.
\<close>

definition plugin_path :: "string \<Rightarrow> string" where
  "plugin_path plugin = ''public/plugins/'' @ plugin @ ''/plugin.min.js''"

definition plugins :: "string list" where
  "plugins = [''codesample'', ''image'', ''link'', ''lists'', ''textcolor'', ''codemirror'']"

definition get_editor_plugins ::
    "(HTML5XBlock \<Rightarrow> string \<Rightarrow> 'u) \<Rightarrow> HTML5XBlock \<Rightarrow> (string \<rightharpoonup> 'u)" where
  "get_editor_plugins local_resource_url self =
     foldl (\<lambda>d plugin. d(plugin \<mapsto> local_resource_url self (plugin_path plugin)))
       Map.empty plugins"

section \<open>The translation file of the current language\<close>

text \<open>
  Python's \<^verbatim>\<open>str.split(sep)\<close> for a separator of one character: the pieces between
  the separators, an empty piece where two separators meet or the text ends with one,
  and one empty piece for the empty text.
\<close>

fun split_chr :: "char \<Rightarrow> string \<Rightarrow> string list" where
  "split_chr sep [] = [[]]"
| "split_chr sep (c # cs) =
     (if c = sep then [] # split_chr sep cs
      else (case split_chr sep cs of
              [] \<Rightarrow> [[c]]
            | w # ws \<Rightarrow> (c # w) # ws))"

text \<open>
  \<^verbatim>\<open>
  @staticmethod
  def _get_statici18n_js_url():
      locale_code = translation.get_language()
      if locale_code is None:
          return None
      text_js = 'public/js/translations/{locale_code}/text.js'
      lang_code = locale_code.split('-')[0]
      for code in (locale_code, lang_code, 'en'):
          resource_loader = ResourceLoader(__name__)
          if pkg_resources.resource_exists(
                  resource_loader.module_name, text_js.format(locale_code=code)):
              return text_js.format(locale_code=code)
      return None
  \<close>
  \<open>text_js\<close> is the format string applied to a code; \<open>for_code\<close> is the loop with
  its early return. The language Django reports and the test whether the package holds
  a resource are parameters. The subscript \<^verbatim>\<open>[0]\<close> raises \<^verbatim>\<open>IndexError\<close> on an empty
  list. The method's name is written without its leading underscore.
\<close>

definition text_js :: "string \<Rightarrow> string" where
  "text_js locale_code = ''public/js/translations/'' @ locale_code @ ''/text.js''"

fun for_code :: "(string \<Rightarrow> bool) \<Rightarrow> string list \<Rightarrow> string option" where
  "for_code resource_exists [] = None"
| "for_code resource_exists (code # codes) =
     (if resource_exists (text_js code) then Some (text_js code)
      else for_code resource_exists codes)"

definition get_statici18n_js_url ::
    "string option \<Rightarrow> (string \<Rightarrow> bool) \<Rightarrow> py_error + string option" where
  "get_statici18n_js_url get_language resource_exists =
     (case get_language of
        None \<Rightarrow> Inr None
      | Some locale_code \<Rightarrow>
          (case split_chr CHR ''-'' locale_code of
             [] \<Rightarrow> Inl IndexError
           | lang_code # _ \<Rightarrow>
               Inr (for_code resource_exists [locale_code, lang_code, ''en''])))"

section \<open>Properties of the read path\<close>

text \<open>
  Claim C1. For every stored record, the value the \<open>html\<close> property returns is the raw
  stored body when the allow-JavaScript flag is true, and is what the sanitizer gives
  for the body when the flag is false. With the flag true the body comes back
  unchanged, whatever it contains, a script element included.
\<close>

theorem html_policy_gate:
  "(allow_javascript self \<longrightarrow> snd (html S self) = Inr (data self)) \<and>
   (\<not> allow_javascript self \<longrightarrow> snd (html S self) = S (data self))"
  by (simp add: html_def sanitized_html_def)

theorem html_policy_gate_witness:
  "snd (html (\<lambda>x. Inr (filter (\<lambda>c. c \<noteq> CHR ''<'') x) :: unit + string)
         (default_block\<lparr>data := ''<b>hi</b><script>alert(1)</script>'',
                         allow_javascript := True\<rparr>))
     = Inr ''<b>hi</b><script>alert(1)</script>'' \<and>
   snd (html (\<lambda>x. Inr (filter (\<lambda>c. c \<noteq> CHR ''<'') x) :: unit + string)
         (default_block\<lparr>data := ''<b>hi</b>''\<rparr>))
     = Inr ''b>hi/b>''"
  using html_policy_gate
      [of "default_block\<lparr>data := ''<b>hi</b><script>alert(1)</script>'',
                          allow_javascript := True\<rparr>"
          "\<lambda>x. Inr (filter (\<lambda>c. c \<noteq> CHR ''<'') x) :: unit + string"]
    html_policy_gate
      [of "default_block\<lparr>data := ''<b>hi</b>''\<rparr>"
          "\<lambda>x. Inr (filter (\<lambda>c. c \<noteq> CHR ''<'') x) :: unit + string"]
  by (simp add: default_block_def)




subsection \<open>What the String field keeps\<close>






subsection \<open>Reads and the stored body\<close>



text \<open>
  What \<open>sanitized_html\<close> returns is decided by the stored body alone: two blocks with
  the same body give the same result whatever their other fields hold, and the block
  read is left as it was.
\<close>

theorem sanitized_html_reads_body_only:
  "fst (sanitized_html S self) = self \<and>
   (data a = data b \<longrightarrow> snd (sanitized_html S a) = snd (sanitized_html S b))"
  by (simp add: sanitized_html_def)

theorem sanitized_html_reads_body_only_witness:
  "snd (sanitized_html (\<lambda>x. Inr (rev x) :: unit + string)
          (default_block\<lparr>data := ''abc'', editor := ''raw''\<rparr>))
     = snd (sanitized_html (\<lambda>x. Inr (rev x) :: unit + string)
          (default_block\<lparr>display_name := ''Notes'', data := ''abc''\<rparr>))"
  using sanitized_html_reads_body_only
      [of "\<lambda>x. Inr (rev x) :: unit + string" default_block
          "default_block\<lparr>data := ''abc'', editor := ''raw''\<rparr>"
          "default_block\<lparr>display_name := ''Notes'', data := ''abc''\<rparr>"]
  by simp

section \<open>Properties of the update handler\<close>




text \<open>
  Claim C10. Called with a payload that has no \<^verbatim>\<open>content\<close> key, the handler raises
  \<^verbatim>\<open>KeyError\<close> from the subscript, and the block, its body included, is as it was.
\<close>

theorem update_content_missing_key:
  assumes "request ''content'' = None"
  shows "update_content self request suffix = (self, Inl (KeyError ''content''))"
  using assms by (simp add: update_content_def)

theorem update_content_missing_key_witness:
  "update_content (default_block\<lparr>data := ''<p>old</p>''\<rparr>) [''body'' \<mapsto> ''<i>new</i>''] []
     = (default_block\<lparr>data := ''<p>old</p>''\<rparr>, Inl (KeyError ''content''))"
  using update_content_missing_key
      [of "[''body'' \<mapsto> ''<i>new</i>'']" "default_block\<lparr>data := ''<p>old</p>''\<rparr>" "[]"]
  by simp

section \<open>Properties of the translation lookup\<close>

lemma split_chr_first: "\<exists>ws. split_chr sep s = takeWhile (\<lambda>c. c \<noteq> sep) s # ws"
  by (induction s) auto

text \<open>
  Claim C9. With no language set the lookup returns no path. With the language \<open>lc\<close>
  it tries three codes in order: \<open>lc\<close> itself, then \<open>lc\<close> up to its first hyphen (the
  bare language code), then \<^verbatim>\<open>en\<close>. It returns the path
  \<^verbatim>\<open>public/js/translations/<code>/text.js\<close> of the first code whose file exists, and
  no path when none of the three files exists. It never raises.
\<close>

theorem get_statici18n_js_url_fallback:
  "get_statici18n_js_url None resource_exists = Inr None \<and>
   get_statici18n_js_url (Some lc) resource_exists =
     Inr (if resource_exists (''public/js/translations/'' @ lc @ ''/text.js'')
          then Some (''public/js/translations/'' @ lc @ ''/text.js'')
          else if resource_exists
                    (''public/js/translations/'' @ takeWhile (\<lambda>c. c \<noteq> CHR ''-'') lc @ ''/text.js'')
          then Some (''public/js/translations/'' @ takeWhile (\<lambda>c. c \<noteq> CHR ''-'') lc @ ''/text.js'')
          else if resource_exists ''public/js/translations/en/text.js''
          then Some ''public/js/translations/en/text.js''
          else None)"
proof -
  obtain ws where "split_chr CHR ''-'' lc = takeWhile (\<lambda>c. c \<noteq> CHR ''-'') lc # ws"
    using split_chr_first by blast
  then show ?thesis
    by (simp add: get_statici18n_js_url_def text_js_def)
qed

theorem get_statici18n_js_url_fallback_witness:
  "get_statici18n_js_url (Some ''de-at'')
       (\<lambda>p. p \<in> {''public/js/translations/de/text.js'', ''public/js/translations/pt/text.js'',
                 ''public/js/translations/en/text.js''})
     = Inr (Some ''public/js/translations/de/text.js'') \<and>
   get_statici18n_js_url (Some ''pt-br'')
       (\<lambda>p. p \<in> {''public/js/translations/pt-br/text.js'', ''public/js/translations/pt/text.js''})
     = Inr (Some ''public/js/translations/pt-br/text.js'') \<and>
   get_statici18n_js_url (Some ''fr'') (\<lambda>p. p = ''public/js/translations/en/text.js'')
     = Inr (Some ''public/js/translations/en/text.js'') \<and>
   get_statici18n_js_url (Some ''fr-ca'') (\<lambda>p. p = ''public/js/translations/de/text.js'')
     = Inr None"
  using get_statici18n_js_url_fallback
      [of "\<lambda>p. p \<in> {''public/js/translations/de/text.js'', ''public/js/translations/pt/text.js'',
                     ''public/js/translations/en/text.js''}" "''de-at''"]
    get_statici18n_js_url_fallback
      [of "\<lambda>p. p \<in> {''public/js/translations/pt-br/text.js'',
                     ''public/js/translations/pt/text.js''}" "''pt-br''"]
    get_statici18n_js_url_fallback [of "\<lambda>p. p = ''public/js/translations/en/text.js''" "''fr''"]
    get_statici18n_js_url_fallback [of "\<lambda>p. p = ''public/js/translations/de/text.js''" "''fr-ca''"]
  by simp

lemma for_code_found:
  "for_code resource_exists codes = Some p \<Longrightarrow>
     resource_exists p \<and> (\<exists>code \<in> set codes. p = text_js code)"
  by (induction codes) (auto split: if_splits)

text \<open>
  A path the lookup returns is the path of a file that exists, and it is the
  translation file of the current language, of that language up to its first hyphen,
  or of \<^verbatim>\<open>en\<close>.
\<close>

theorem get_statici18n_js_url_sound:
  assumes "get_statici18n_js_url (Some lc) resource_exists = Inr (Some p)"
  shows "resource_exists p \<and>
         p \<in> {(''public/js/translations/'' @ lc @ ''/text.js''),
              (''public/js/translations/'' @ takeWhile (\<lambda>c. c \<noteq> CHR ''-'') lc @ ''/text.js''),
              ''public/js/translations/en/text.js''}"
proof -
  obtain ws where ws: "split_chr CHR ''-'' lc = takeWhile (\<lambda>c. c \<noteq> CHR ''-'') lc # ws"
    using split_chr_first by blast
  with assms have
    "for_code resource_exists [lc, takeWhile (\<lambda>c. c \<noteq> CHR ''-'') lc, ''en''] = Some p"
    by (simp add: get_statici18n_js_url_def)
  from for_code_found [OF this] show ?thesis
    by (auto simp: text_js_def)
qed

theorem get_statici18n_js_url_sound_witness:
  "get_statici18n_js_url (Some ''de-at'') (\<lambda>p. p = ''public/js/translations/en/text.js'')
     = Inr (Some ''public/js/translations/en/text.js'') \<and>
   ''public/js/translations/en/text.js'' \<in>
     {''public/js/translations/de-at/text.js'', ''public/js/translations/de/text.js'',
      ''public/js/translations/en/text.js''}"
proof -
  have found:
    "get_statici18n_js_url (Some ''de-at'') (\<lambda>p. p = ''public/js/translations/en/text.js'')
       = Inr (Some ''public/js/translations/en/text.js'')"
    by (simp add: get_statici18n_js_url_def text_js_def)
  from get_statici18n_js_url_sound [OF found]
  have "''public/js/translations/en/text.js'' \<in>
     {''public/js/translations/de-at/text.js'', ''public/js/translations/de/text.js'',
      ''public/js/translations/en/text.js''}"
    by simp
  with found show ?thesis
    by simp
qed

section \<open>Properties of the plugin table\<close>

lemma foldl_upd_lookup:
  "foldl (\<lambda>d k. d(k \<mapsto> f k)) m ks k' = (if k' \<in> set ks then Some (f k') else m k')"
  by (induction ks arbitrary: m) auto

text \<open>
  The table \<open>get_editor_plugins\<close> builds has the six plugin names as its keys and no
  other, and gives each the URL of \<^verbatim>\<open>public/plugins/<name>/plugin.min.js\<close>.
\<close>

theorem get_editor_plugins_table:
  "get_editor_plugins local_resource_url self plugin =
     (if plugin \<in> {''codesample'', ''image'', ''link'', ''lists'', ''textcolor'', ''codemirror''}
      then Some (local_resource_url self (''public/plugins/'' @ plugin @ ''/plugin.min.js''))
      else None)"
  unfolding get_editor_plugins_def foldl_upd_lookup
  by (simp add: plugins_def plugin_path_def)

theorem get_editor_plugins_table_witness:
  "get_editor_plugins (\<lambda>b p. ''/resource/html5/'' @ p) default_block ''lists''
     = Some ''/resource/html5/public/plugins/lists/plugin.min.js'' \<and>
   get_editor_plugins (\<lambda>b p. ''/resource/html5/'' @ p) default_block ''table'' = None"
  using get_editor_plugins_table [of "\<lambda>b p. ''/resource/html5/'' @ p" default_block "''lists''"]
    get_editor_plugins_table [of "\<lambda>b p. ''/resource/html5/'' @ p" default_block "''table''"]
  by simp

end
